theory Spec2Isabelle
  imports Complex_Main
begin

section \<open>Data model\<close>

text \<open>
  The ingestion engine keeps five PostgreSQL tables: two append-only history tables
  (Cold Store), two one-row-per-device status tables (Hot Store) and the device
  mapping.  A table is modelled as the list of its rows in insertion order.

  Modelling conventions:
  \<^item> an instant (JavaScript \<open>Date\<close>, column type \<open>timestamptz\<close>) is the number of
    milliseconds since the epoch; the ISO string of a DTO is represented by the instant
    it denotes;
  \<^item> JavaScript numbers and \<open>decimal(p,s)\<close> columns are exact reals (no rounding to the
    column scale, no precision overflow);
  \<^item> a DTO field is an \<open>option\<close>: the elements of a batch are not validated, and the
    non-null assertions \<open>dto.meterId!\<close> of \<open>ingestPolymorphic\<close> have no run-time
    effect, so \<open>undefined\<close> (\<open>None\<close>) can reach the storage layer;
  \<^item> the surrogate \<open>uuid\<close> of a history row is its position in the table.
\<close>

type_synonym instant = int

datatype TelemetryType = METER | VEHICLE

record PolymorphicTelemetryDto =
  p_type :: TelemetryType
  p_meterId :: "string option"
  p_kwhConsumedAc :: "real option"
  p_voltage :: "real option"
  p_vehicleId :: "string option"
  p_soc :: "real option"
  p_kwhDeliveredDc :: "real option"
  p_batteryTemp :: "real option"
  p_timestamp :: instant

record MeterTelemetryDto =
  md_meterId :: "string option"
  md_kwhConsumedAc :: "real option"
  md_voltage :: "real option"
  md_timestamp :: instant

record VehicleTelemetryDto =
  vd_vehicleId :: "string option"
  vd_soc :: "real option"
  vd_kwhDeliveredDc :: "real option"
  vd_batteryTemp :: "real option"
  vd_timestamp :: instant

record DeviceMapping =
  dm_meterId :: string
  dm_vehicleId :: string
  dm_isActive :: bool
  dm_createdAt :: instant
  dm_updatedAt :: instant

record MeterTelemetryHistory =
  mh_id :: nat
  mh_meterId :: string
  mh_kwhConsumedAc :: real
  mh_voltage :: real
  mh_timestamp :: instant
  mh_ingestedAt :: instant
  mh_vehicleId :: "string option"

record VehicleTelemetryHistory =
  vh_id :: nat
  vh_vehicleId :: string
  vh_soc :: real
  vh_kwhDeliveredDc :: real
  vh_batteryTemp :: real
  vh_timestamp :: instant
  vh_ingestedAt :: instant
  vh_meterId :: "string option"

datatype meter_status = MeterOnline | MeterOffline | MeterError

datatype charging_state = Charging | Idle | Discharging | VehicleOffline | VehicleError

record MeterCurrentStatus =
  ms_meterId :: string
  ms_kwhConsumedAc :: real
  ms_voltage :: real
  ms_lastReadingAt :: instant
  ms_dailyKwhConsumedAc :: real
  ms_vehicleId :: "string option"
  ms_status :: meter_status
  ms_createdAt :: instant
  ms_updatedAt :: instant

record VehicleCurrentStatus =
  vs_vehicleId :: string
  vs_soc :: real
  vs_kwhDeliveredDc :: real
  vs_batteryTemp :: real
  vs_lastReadingAt :: instant
  vs_dailyKwhDeliveredDc :: real
  vs_meterId :: "string option"
  vs_chargingState :: charging_state
  vs_batteryTempWarning :: bool
  vs_createdAt :: instant
  vs_updatedAt :: instant

record db =
  device_mapping :: "DeviceMapping list"
  meter_telemetry_history :: "MeterTelemetryHistory list"
  vehicle_telemetry_history :: "VehicleTelemetryHistory list"
  meter_current_status :: "MeterCurrentStatus list"
  vehicle_current_status :: "VehicleCurrentStatus list"

definition empty_db :: db where
  "empty_db = \<lparr>device_mapping = [], meter_telemetry_history = [],
     vehicle_telemetry_history = [], meter_current_status = [],
     vehicle_current_status = []\<rparr>"

text \<open>
  What a service call can throw.  \<open>QueryFailed\<close> is the driver's error for a statement
  the database rejects because of its data (a \<open>NOT NULL\<close> column receiving
  \<open>undefined\<close>); \<open>StorageFailure\<close> is an infrastructure fault of the storage layer
  (lost connection, timeout); \<open>NotFound\<close> is the \<open>NotFoundException\<close> of the analytics
  service.
\<close>

datatype error = QueryFailed | StorageFailure | NotFound

text \<open>
  The storage statements of one single-reading ingestion, in program order.  A service
  function takes the statement (if any) at which the storage layer fails during the call.
\<close>

datatype stmt = FindMapping | ColdInsert | HotUpsert

text \<open>
  The statements \<open>ingestBatch\<close> issues on its own query runner, around the loop over
  the readings.
\<close>

datatype batch_stmt = Connect | StartTransaction | CommitTransaction

section \<open>SQL helpers\<close>

text \<open>
  \<open>DATE(t)\<close> of a \<open>timestamptz\<close> is the calendar day of the instant (session time zone
  UTC), as a day number.
\<close>

definition DATE :: "instant \<Rightarrow> int" where
  "DATE t = t div 86400000"

definition COALESCE :: "'a option \<Rightarrow> 'a \<Rightarrow> 'a" where
  "COALESCE x d = (case x of None \<Rightarrow> d | Some v \<Rightarrow> v)"

definition GREATEST_of :: "real \<Rightarrow> real \<Rightarrow> real" where
  "GREATEST_of a b = max a b"

text \<open>\<open>SUM\<close>, \<open>AVG\<close>, \<open>MAX\<close> and \<open>MIN\<close> of an empty set of rows are \<open>NULL\<close>.\<close>

definition SUM_agg :: "real list \<Rightarrow> real option" where
  "SUM_agg xs = (if xs = [] then None else Some (sum_list xs))"

definition AVG_agg :: "real list \<Rightarrow> real option" where
  "AVG_agg xs = (if xs = [] then None else Some (sum_list xs / real (length xs)))"

definition MAX_agg :: "real list \<Rightarrow> real option" where
  "MAX_agg xs = (case xs of [] \<Rightarrow> None | x # ys \<Rightarrow> Some (fold max ys x))"

definition MIN_agg :: "real list \<Rightarrow> real option" where
  "MIN_agg xs = (case xs of [] \<Rightarrow> None | x # ys \<Rightarrow> Some (fold min ys x))"

section \<open>Telemetry service\<close>

subsection \<open>Correlation lookup\<close>

text \<open>
  \<open>deviceMappingRepo.findOne({ where: { meterId, isActive: true } })\<close>: the first
  active row for the device in table order.  A \<open>where\<close> key whose value is
  \<open>undefined\<close> is left out of the condition.
\<close>

definition findOne_meter :: "DeviceMapping list \<Rightarrow> string option \<Rightarrow> DeviceMapping option" where
  "findOne_meter rows m =
     find (\<lambda>r. (case m of None \<Rightarrow> True | Some k \<Rightarrow> dm_meterId r = k) \<and> dm_isActive r) rows"

definition findOne_vehicle :: "DeviceMapping list \<Rightarrow> string option \<Rightarrow> DeviceMapping option" where
  "findOne_vehicle rows v =
     find (\<lambda>r. (case v of None \<Rightarrow> True | Some k \<Rightarrow> dm_vehicleId r = k) \<and> dm_isActive r) rows"

text \<open>\<open>mapping?.vehicleId || null\<close>: an empty identifier is falsy and becomes \<open>null\<close>.\<close>

definition or_null :: "string option \<Rightarrow> string option" where
  "or_null s = (case s of None \<Rightarrow> None | Some x \<Rightarrow> if x = [] then None else Some x)"

subsection \<open>Cold Store: history insert\<close>

text \<open>
  \<open>meterHistoryRepo.insert(historyEntry)\<close>.  Every column but the peer is \<open>NOT NULL\<close>:
  an entry with an undefined required field is rejected by the database.
\<close>

definition insert_meter_history ::
  "instant \<Rightarrow> db \<Rightarrow> MeterTelemetryDto \<Rightarrow> instant \<Rightarrow> string option \<Rightarrow> error + db" where
  "insert_meter_history now d dto timestamp vehicleId =
     (case (md_meterId dto, md_kwhConsumedAc dto, md_voltage dto) of
        (Some m, Some k, Some v) \<Rightarrow>
          Inr (d\<lparr>meter_telemetry_history := meter_telemetry_history d @
                [\<lparr>mh_id = length (meter_telemetry_history d), mh_meterId = m,
                  mh_kwhConsumedAc = k, mh_voltage = v, mh_timestamp = timestamp,
                  mh_ingestedAt = now, mh_vehicleId = vehicleId\<rparr>]\<rparr>)
      | _ \<Rightarrow> Inl QueryFailed)"

definition insert_vehicle_history ::
  "instant \<Rightarrow> db \<Rightarrow> VehicleTelemetryDto \<Rightarrow> instant \<Rightarrow> string option \<Rightarrow> error + db" where
  "insert_vehicle_history now d dto timestamp meterId =
     (case (vd_vehicleId dto, vd_soc dto, vd_kwhDeliveredDc dto, vd_batteryTemp dto) of
        (Some v, Some s, Some k, Some t) \<Rightarrow>
          Inr (d\<lparr>vehicle_telemetry_history := vehicle_telemetry_history d @
                [\<lparr>vh_id = length (vehicle_telemetry_history d), vh_vehicleId = v,
                  vh_soc = s, vh_kwhDeliveredDc = k, vh_batteryTemp = t,
                  vh_timestamp = timestamp, vh_ingestedAt = now, vh_meterId = meterId\<rparr>]\<rparr>)
      | _ \<Rightarrow> Inl QueryFailed)"

subsection \<open>Hot Store: status upsert\<close>

text \<open>
  The scalar subquery of the meter upsert,
  \<^verbatim>\<open>SELECT "kwhConsumedAc" FROM meter_telemetry_history WHERE "meterId" = $1
   ORDER BY timestamp DESC LIMIT 1 OFFSET 1\<close>:
  the second-latest history reading of the meter, \<open>NULL\<close> when there are fewer than two.
  Among rows of equal timestamp (whose order SQL leaves open) the later insert comes
  first.
\<close>

definition second_latest_kwhConsumedAc :: "MeterTelemetryHistory list \<Rightarrow> string \<Rightarrow> real option" where
  "second_latest_kwhConsumedAc h m =
     (case drop 1 (rev (sort_key mh_timestamp (filter (\<lambda>r. mh_meterId r = m) h))) of
        [] \<Rightarrow> None
      | r # _ \<Rightarrow> Some (mh_kwhConsumedAc r))"

text \<open>The \<open>DO UPDATE SET\<close> clause of the meter upsert, applied to the conflicting row.\<close>

definition meter_do_update ::
  "instant \<Rightarrow> MeterTelemetryHistory list \<Rightarrow> string \<Rightarrow> real \<Rightarrow> real \<Rightarrow> instant \<Rightarrow> string option
     \<Rightarrow> MeterCurrentStatus \<Rightarrow> MeterCurrentStatus" where
  "meter_do_update now h p1 p2 p3 p4 p5 r =
     r\<lparr>ms_kwhConsumedAc := p2,
       ms_voltage := p3,
       ms_lastReadingAt := p4,
       ms_dailyKwhConsumedAc := ms_dailyKwhConsumedAc r +
         (if DATE p4 > DATE (ms_lastReadingAt r) then p2
          else p2 - COALESCE (second_latest_kwhConsumedAc h p1) p2),
       ms_vehicleId := (case p5 of Some x \<Rightarrow> Some x | None \<Rightarrow> ms_vehicleId r),
       ms_status := MeterOnline,
       ms_updatedAt := now\<rparr>"

definition upsertMeterStatus ::
  "instant \<Rightarrow> db \<Rightarrow> MeterTelemetryDto \<Rightarrow> instant \<Rightarrow> string option \<Rightarrow> error + db" where
  "upsertMeterStatus now d dto timestamp vehicleId =
     (case (md_meterId dto, md_kwhConsumedAc dto, md_voltage dto) of
        (Some p1, Some p2, Some p3) \<Rightarrow>
          Inr (d\<lparr>meter_current_status :=
            (case find (\<lambda>r. ms_meterId r = p1) (meter_current_status d) of
               None \<Rightarrow> meter_current_status d @
                 [\<lparr>ms_meterId = p1, ms_kwhConsumedAc = p2, ms_voltage = p3,
                   ms_lastReadingAt = timestamp, ms_dailyKwhConsumedAc = p2,
                   ms_vehicleId = vehicleId, ms_status = MeterOnline,
                   ms_createdAt = now, ms_updatedAt = now\<rparr>]
             | Some _ \<Rightarrow>
                 map (\<lambda>r. if ms_meterId r = p1
                           then meter_do_update now (meter_telemetry_history d)
                                  p1 p2 p3 timestamp vehicleId r
                           else r)
                     (meter_current_status d))\<rparr>)
      | _ \<Rightarrow> Inl QueryFailed)"

definition BATTERY_TEMP_WARNING :: real where
  "BATTERY_TEMP_WARNING = 45"

text \<open>The \<open>DO UPDATE SET\<close> clause of the vehicle upsert.\<close>

definition vehicle_do_update ::
  "instant \<Rightarrow> real \<Rightarrow> real \<Rightarrow> real \<Rightarrow> instant \<Rightarrow> string option \<Rightarrow> charging_state \<Rightarrow> bool
     \<Rightarrow> VehicleCurrentStatus \<Rightarrow> VehicleCurrentStatus" where
  "vehicle_do_update now p2 p3 p4 p5 p6 p7 p8 r =
     r\<lparr>vs_soc := p2,
       vs_kwhDeliveredDc := p3,
       vs_batteryTemp := p4,
       vs_lastReadingAt := p5,
       vs_dailyKwhDeliveredDc := vs_dailyKwhDeliveredDc r +
         (if DATE p5 > DATE (vs_lastReadingAt r) then p3
          else GREATEST_of 0 (p3 - COALESCE (Some (vs_kwhDeliveredDc r)) 0)),
       vs_meterId := (case p6 of Some x \<Rightarrow> Some x | None \<Rightarrow> vs_meterId r),
       vs_chargingState := p7,
       vs_batteryTempWarning := p8,
       vs_updatedAt := now\<rparr>"

definition upsertVehicleStatus ::
  "instant \<Rightarrow> db \<Rightarrow> VehicleTelemetryDto \<Rightarrow> instant \<Rightarrow> string option \<Rightarrow> error + db" where
  "upsertVehicleStatus now d dto timestamp meterId =
     (let chargingState = (case vd_kwhDeliveredDc dto of
                             Some k \<Rightarrow> if k > 0 then Charging else Idle
                           | None \<Rightarrow> Idle);
          batteryTempWarning = (case vd_batteryTemp dto of
                                  Some t \<Rightarrow> t \<ge> BATTERY_TEMP_WARNING
                                | None \<Rightarrow> False)
      in case (vd_vehicleId dto, vd_soc dto, vd_kwhDeliveredDc dto, vd_batteryTemp dto) of
        (Some p1, Some p2, Some p3, Some p4) \<Rightarrow>
          Inr (d\<lparr>vehicle_current_status :=
            (case find (\<lambda>r. vs_vehicleId r = p1) (vehicle_current_status d) of
               None \<Rightarrow> vehicle_current_status d @
                 [\<lparr>vs_vehicleId = p1, vs_soc = p2, vs_kwhDeliveredDc = p3,
                   vs_batteryTemp = p4, vs_lastReadingAt = timestamp,
                   vs_dailyKwhDeliveredDc = p3, vs_meterId = meterId,
                   vs_chargingState = chargingState,
                   vs_batteryTempWarning = batteryTempWarning,
                   vs_createdAt = now, vs_updatedAt = now\<rparr>]
             | Some _ \<Rightarrow>
                 map (\<lambda>r. if vs_vehicleId r = p1
                           then vehicle_do_update now p2 p3 p4 timestamp meterId
                                  chargingState batteryTempWarning r
                           else r)
                     (vehicle_current_status d))\<rparr>)
      | _ \<Rightarrow> Inl QueryFailed)"

subsection \<open>Single-reading ingestion\<close>

text \<open>
  \<open>ingestMeterTelemetry\<close> awaits three statements one after the other: the mapping
  lookup, the history insert and the status upsert.  None of them runs inside a
  transaction, so each takes effect when it returns; the function returns the outcome
  together with the database as it stands when the call ends.
\<close>

definition ingestMeterTelemetry ::
  "stmt option \<Rightarrow> instant \<Rightarrow> db \<Rightarrow> MeterTelemetryDto \<Rightarrow> (error + unit) \<times> db" where
  "ingestMeterTelemetry fault now d dto =
     (let timestamp = md_timestamp dto in
      if fault = Some FindMapping then (Inl StorageFailure, d)
      else
        let mapping = findOne_meter (device_mapping d) (md_meterId dto) in
        if fault = Some ColdInsert then (Inl StorageFailure, d)
        else
          case insert_meter_history now d dto timestamp
                 (or_null (map_option dm_vehicleId mapping)) of
            Inl e \<Rightarrow> (Inl e, d)
          | Inr d1 \<Rightarrow>
              if fault = Some HotUpsert then (Inl StorageFailure, d1)
              else
                case upsertMeterStatus now d1 dto timestamp
                       (map_option dm_vehicleId mapping) of
                  Inl e \<Rightarrow> (Inl e, d1)
                | Inr d2 \<Rightarrow> (Inr (), d2))"

definition ingestVehicleTelemetry ::
  "stmt option \<Rightarrow> instant \<Rightarrow> db \<Rightarrow> VehicleTelemetryDto \<Rightarrow> (error + unit) \<times> db" where
  "ingestVehicleTelemetry fault now d dto =
     (let timestamp = vd_timestamp dto in
      if fault = Some FindMapping then (Inl StorageFailure, d)
      else
        let mapping = findOne_vehicle (device_mapping d) (vd_vehicleId dto) in
        if fault = Some ColdInsert then (Inl StorageFailure, d)
        else
          case insert_vehicle_history now d dto timestamp
                 (or_null (map_option dm_meterId mapping)) of
            Inl e \<Rightarrow> (Inl e, d)
          | Inr d1 \<Rightarrow>
              if fault = Some HotUpsert then (Inl StorageFailure, d1)
              else
                case upsertVehicleStatus now d1 dto timestamp
                       (map_option dm_meterId mapping) of
                  Inl e \<Rightarrow> (Inl e, d1)
                | Inr d2 \<Rightarrow> (Inr (), d2))"

subsection \<open>Polymorphic and batch ingestion\<close>

record ingest_ack =
  ack_success :: bool
  ack_type :: string
  ack_id :: "string option"

definition ingestPolymorphic ::
  "stmt option \<Rightarrow> instant \<Rightarrow> db \<Rightarrow> PolymorphicTelemetryDto \<Rightarrow> (error + ingest_ack) \<times> db" where
  "ingestPolymorphic fault now d dto =
     (if p_type dto = METER then
        (case ingestMeterTelemetry fault now d
                \<lparr>md_meterId = p_meterId dto, md_kwhConsumedAc = p_kwhConsumedAc dto,
                 md_voltage = p_voltage dto, md_timestamp = p_timestamp dto\<rparr> of
           (Inl e, d') \<Rightarrow> (Inl e, d')
         | (Inr _, d') \<Rightarrow>
             (Inr \<lparr>ack_success = True, ack_type = ''meter'', ack_id = p_meterId dto\<rparr>, d'))
      else
        (case ingestVehicleTelemetry fault now d
                \<lparr>vd_vehicleId = p_vehicleId dto, vd_soc = p_soc dto,
                 vd_kwhDeliveredDc = p_kwhDeliveredDc dto,
                 vd_batteryTemp = p_batteryTemp dto, vd_timestamp = p_timestamp dto\<rparr> of
           (Inl e, d') \<Rightarrow> (Inl e, d')
         | (Inr _, d') \<Rightarrow>
             (Inr \<lparr>ack_success = True, ack_type = ''vehicle'', ack_id = p_vehicleId dto\<rparr>, d')))"

record batch_result =
  br_success :: nat
  br_failed :: nat
  br_errors :: "string list"

text \<open>
  The text of a thrown error (one fixed text per kind stands for the driver's wording),
  and the entry
  \<^verbatim>\<open>`${reading.type}:${reading.meterId || reading.vehicleId}: ${error.message}`\<close>
  that the batch loop records for a failed reading.
\<close>

definition error_message :: "error \<Rightarrow> string" where
  "error_message e =
     (case e of
        QueryFailed \<Rightarrow> ''null value violates not-null constraint''
      | StorageFailure \<Rightarrow> ''storage failure''
      | NotFound \<Rightarrow> ''not found'')"

definition type_text :: "TelemetryType \<Rightarrow> string" where
  "type_text t = (case t of METER \<Rightarrow> ''meter'' | VEHICLE \<Rightarrow> ''vehicle'')"

definition failure_entry :: "PolymorphicTelemetryDto \<Rightarrow> error \<Rightarrow> string" where
  "failure_entry reading e =
     type_text (p_type reading) @ '':'' @
     (case or_null (p_meterId reading) of
        Some m \<Rightarrow> m
      | None \<Rightarrow> (case p_vehicleId reading of Some v \<Rightarrow> v | None \<Rightarrow> ''undefined'')) @
     '': '' @ error_message e"

text \<open>
  The \<open>for\<close> loop of \<open>ingestBatch\<close> with its inner \<open>try\<close>/\<open>catch\<close>: every error
  thrown by \<open>ingestPolymorphic\<close>, whatever its kind, is caught, counted and recorded,
  and the loop goes on.  \<open>faults\<close> gives, reading by reading, the statement at which
  the storage layer fails (no entry: no fault).
\<close>

fun ingest_loop ::
  "stmt option list \<Rightarrow> instant \<Rightarrow> PolymorphicTelemetryDto list \<Rightarrow> db \<times> batch_result
     \<Rightarrow> db \<times> batch_result" where
  "ingest_loop faults now [] (d, res) = (d, res)"
| "ingest_loop faults now (reading # rest) (d, res) =
     (case ingestPolymorphic (case faults of [] \<Rightarrow> None | f # _ \<Rightarrow> f) now d reading of
        (Inr _, d') \<Rightarrow>
          ingest_loop (tl faults) now rest (d', res\<lparr>br_success := br_success res + 1\<rparr>)
      | (Inl e, d') \<Rightarrow>
          ingest_loop (tl faults) now rest
            (d', res\<lparr>br_failed := br_failed res + 1,
                     br_errors := br_errors res @ [failure_entry reading e]\<rparr>))"

text \<open>
  \<open>queryRunner.commitTransaction()\<close> and \<open>queryRunner.rollbackTransaction()\<close> end the
  transaction opened on the query runner's own connection.  The loop never hands the
  query runner (or its manager) to \<open>ingestPolymorphic\<close>: every write of the batch goes
  through the injected repositories and \<open>dataSource.query\<close>, outside that transaction.
  The transaction therefore holds no statement, and ending it either way leaves the
  tables as the loop left them.
\<close>

definition commitTransaction :: "db \<Rightarrow> db" where
  "commitTransaction d = d"

definition rollbackTransaction :: "db \<Rightarrow> db" where
  "rollbackTransaction d = d"

definition ingestBatch ::
  "batch_stmt option \<Rightarrow> stmt option list \<Rightarrow> instant \<Rightarrow> db \<Rightarrow> PolymorphicTelemetryDto list
     \<Rightarrow> (error + batch_result) \<times> db" where
  "ingestBatch bfault faults now d readings =
     (if bfault = Some Connect then (Inl StorageFailure, d)
      else if bfault = Some StartTransaction then (Inl StorageFailure, d)
      else
        (case ingest_loop faults now readings
                (d, \<lparr>br_success = 0, br_failed = 0, br_errors = []\<rparr>) of
           (d', res) \<Rightarrow>
             if bfault = Some CommitTransaction
             then (Inl StorageFailure, rollbackTransaction d')
             else (Inr res, commitTransaction d')))"

subsection \<open>Deactivating a mapping\<close>

definition deactivateMapping :: "instant \<Rightarrow> db \<Rightarrow> string \<Rightarrow> string \<Rightarrow> db" where
  "deactivateMapping now d meterId vehicleId =
     d\<lparr>device_mapping :=
         map (\<lambda>r. if dm_meterId r = meterId \<and> dm_vehicleId r = vehicleId
                   then r\<lparr>dm_isActive := False, dm_updatedAt := now\<rparr>
                   else r)
             (device_mapping d)\<rparr>"

section \<open>Analytics service\<close>

record AnalyticsConfig =
  efficiencyWarningThreshold :: real
  efficiencyCriticalThreshold :: real

definition default_config :: AnalyticsConfig where
  "default_config = \<lparr>efficiencyWarningThreshold = 0.85, efficiencyCriticalThreshold = 0.75\<rparr>"

text \<open>\<open>Math.round(x * k) / k\<close>; \<open>Math.round\<close> rounds halves towards \<open>+\<infinity>\<close>.\<close>

definition Math_round :: "real \<Rightarrow> real" where
  "Math_round x = of_int \<lfloor>x + 1 / 2\<rfloor>"

definition round_to :: "real \<Rightarrow> real \<Rightarrow> real" where
  "round_to k x = Math_round (x * k) / k"

datatype efficiency_status = Excellent | Good | Warning | Critical

text \<open>
  The optional \<open>warning\<close> text of a performance report is represented by the list of its
  causes (joined by \<open>'. '\<close> in the source; the empty list is \<open>undefined\<close>), each with
  the number printed in it.
\<close>

datatype warning_cause =
    EfficiencyBelowWarning real
  | EfficiencyBelowCritical real
  | CriticalBatteryTemp real
  | ElevatedBatteryTemp real

record PerformanceAnalyticsResponseDto =
  pr_vehicleId :: string
  pr_periodStart :: instant
  pr_periodEnd :: instant
  pr_totalKwhConsumedAc :: real
  pr_totalKwhDeliveredDc :: real
  pr_efficiencyRatio :: real
  pr_efficiencyStatus :: efficiency_status
  pr_avgBatteryTemp :: real
  pr_maxBatteryTemp :: real
  pr_minBatteryTemp :: real
  pr_warning :: "warning_cause list"
  pr_readingsCount :: nat
  pr_meterId :: "string option"

text \<open>
  \<open>new Date(periodEnd.getTime() - hours * 60 * 60 * 1000)\<close>: the start of the window of
  the last \<open>hours\<close> hours.
\<close>

definition period_start :: "instant \<Rightarrow> int \<Rightarrow> instant" where
  "period_start periodEnd hours = periodEnd - hours * 60 * 60 * 1000"

text \<open>The rows of a history table inside the closed window \<open>[periodStart, periodEnd]\<close>.\<close>

definition vehicle_window ::
  "db \<Rightarrow> instant \<Rightarrow> instant \<Rightarrow> VehicleTelemetryHistory list" where
  "vehicle_window d periodStart periodEnd =
     filter (\<lambda>r. vh_timestamp r \<ge> periodStart \<and> vh_timestamp r \<le> periodEnd)
       (vehicle_telemetry_history d)"

definition meter_window ::
  "db \<Rightarrow> instant \<Rightarrow> instant \<Rightarrow> MeterTelemetryHistory list" where
  "meter_window d periodStart periodEnd =
     filter (\<lambda>r. mh_timestamp r \<ge> periodStart \<and> mh_timestamp r \<le> periodEnd)
       (meter_telemetry_history d)"

text \<open>
  The meter identifier \<open>getPerformance\<close> works with: the caller's, or, when that is
  missing or empty, the one of the vehicle's active mapping.
\<close>

definition resolve_meterId :: "db \<Rightarrow> string \<Rightarrow> string option \<Rightarrow> string option" where
  "resolve_meterId d vehicleId meterId =
     (if or_null meterId = None
      then map_option dm_meterId (findOne_vehicle (device_mapping d) (Some vehicleId))
      else meterId)"

text \<open>
  The consumed-energy query of \<open>getPerformance\<close>: by meter identifier when one is
  resolved, otherwise by the vehicle tag of the meter history rows.
\<close>

definition consumed_sum ::
  "db \<Rightarrow> instant \<Rightarrow> instant \<Rightarrow> string \<Rightarrow> string option \<Rightarrow> real" where
  "consumed_sum d periodStart periodEnd vehicleId meterId =
     (case or_null meterId of
        Some m \<Rightarrow>
          COALESCE (SUM_agg (map mh_kwhConsumedAc
            (filter (\<lambda>r. mh_meterId r = m) (meter_window d periodStart periodEnd)))) 0
      | None \<Rightarrow>
          COALESCE (SUM_agg (map mh_kwhConsumedAc
            (filter (\<lambda>r. mh_vehicleId r = Some vehicleId)
               (meter_window d periodStart periodEnd)))) 0)"

definition getPerformance ::
  "AnalyticsConfig \<Rightarrow> instant \<Rightarrow> db \<Rightarrow> string \<Rightarrow> int \<Rightarrow> string option
     \<Rightarrow> error + PerformanceAnalyticsResponseDto" where
  "getPerformance cfg now d vehicleId hours meterId0 =
     (let periodEnd = now;
          periodStart = period_start periodEnd hours;
          meterId = resolve_meterId d vehicleId meterId0;
          vrows = filter (\<lambda>r. vh_vehicleId r = vehicleId)
                    (vehicle_window d periodStart periodEnd);
          temps = map vh_batteryTemp vrows
      in if length vrows = 0 then Inl NotFound
         else
           let consumed = consumed_sum d periodStart periodEnd vehicleId meterId;
               totalKwhDeliveredDc = COALESCE (SUM_agg (map vh_kwhDeliveredDc vrows)) 0;
               avgBatteryTemp = COALESCE (AVG_agg temps) 0;
               maxBatteryTemp = COALESCE (MAX_agg temps) 0;
               minBatteryTemp = COALESCE (MIN_agg temps) 0;
               readingsCount = length vrows;
               totalKwhConsumedAc =
                 (if consumed > 0 then consumed
                  else if totalKwhDeliveredDc > 0 then totalKwhDeliveredDc / 0.9
                  else consumed);
               efficiencyRatio =
                 (if consumed > 0 then totalKwhDeliveredDc / consumed
                  else if totalKwhDeliveredDc > 0 then 0.9
                  else 0);
               efficiencyStatus =
                 (if efficiencyRatio \<ge> 0.92 then Excellent
                  else if efficiencyRatio \<ge> efficiencyWarningThreshold cfg then Good
                  else if efficiencyRatio \<ge> efficiencyCriticalThreshold cfg then Warning
                  else Critical);
               warning0 =
                 (if efficiencyRatio \<ge> 0.92 then []
                  else if efficiencyRatio \<ge> efficiencyWarningThreshold cfg then []
                  else if efficiencyRatio \<ge> efficiencyCriticalThreshold cfg
                  then [EfficiencyBelowWarning (efficiencyWarningThreshold cfg * 100)]
                  else [EfficiencyBelowCritical (efficiencyCriticalThreshold cfg * 100)]);
               warning =
                 (if maxBatteryTemp > 55 then warning0 @ [CriticalBatteryTemp maxBatteryTemp]
                  else if maxBatteryTemp > 45 then warning0 @ [ElevatedBatteryTemp maxBatteryTemp]
                  else warning0)
           in Inr \<lparr>pr_vehicleId = vehicleId,
                   pr_periodStart = periodStart,
                   pr_periodEnd = periodEnd,
                   pr_totalKwhConsumedAc = round_to 10000 totalKwhConsumedAc,
                   pr_totalKwhDeliveredDc = round_to 10000 totalKwhDeliveredDc,
                   pr_efficiencyRatio = round_to 10000 efficiencyRatio,
                   pr_efficiencyStatus = efficiencyStatus,
                   pr_avgBatteryTemp = round_to 100 avgBatteryTemp,
                   pr_maxBatteryTemp = round_to 100 maxBatteryTemp,
                   pr_minBatteryTemp = round_to 100 minBatteryTemp,
                   pr_warning = warning,
                   pr_readingsCount = readingsCount,
                   pr_meterId = meterId\<rparr>)"

record FleetEfficiencyDto =
  fe_totalVehicles :: nat
  fe_avgEfficiencyRatio :: real
  fe_vehiclesWithWarnings :: nat
  fe_vehiclesCritical :: nat
  fe_totalKwhConsumedAc :: real
  fe_totalKwhDeliveredDc :: real
  fe_totalEnergyLoss :: real

record breakdown_row =
  eb_vehicleId :: string
  eb_totalDc :: real
  eb_totalAc :: real
  eb_ratio :: real

text \<open>
  The per-vehicle query of \<open>getFleetEfficiency\<close>.  The common table expression has one
  row per vehicle with a reading in the window (\<open>GROUP BY vh."vehicleId"\<close>): its
  delivered sum, and the consumed sum of the meter rows in the window tagged with that
  vehicle.  The outer query keeps the rows with a positive consumed sum.
\<close>

definition vehicle_energy :: "db \<Rightarrow> instant \<Rightarrow> instant \<Rightarrow> string \<Rightarrow> breakdown_row" where
  "vehicle_energy d periodStart periodEnd v =
     (let totalDc = sum_list (map vh_kwhDeliveredDc
                      (filter (\<lambda>r. vh_vehicleId r = v) (vehicle_window d periodStart periodEnd)));
          totalAc = COALESCE (SUM_agg (map mh_kwhConsumedAc
                      (filter (\<lambda>r. mh_vehicleId r = Some v)
                         (meter_window d periodStart periodEnd)))) 0
      in \<lparr>eb_vehicleId = v, eb_totalDc = totalDc, eb_totalAc = totalAc,
           eb_ratio = (if totalAc > 0 then totalDc / totalAc else 0)\<rparr>)"

definition efficiencyBreakdown :: "db \<Rightarrow> instant \<Rightarrow> instant \<Rightarrow> breakdown_row list" where
  "efficiencyBreakdown d periodStart periodEnd =
     filter (\<lambda>b. eb_totalAc b > 0)
       (map (vehicle_energy d periodStart periodEnd)
          (remdups (map vh_vehicleId (vehicle_window d periodStart periodEnd))))"

definition getFleetEfficiency ::
  "AnalyticsConfig \<Rightarrow> instant \<Rightarrow> db \<Rightarrow> int \<Rightarrow> FleetEfficiencyDto" where
  "getFleetEfficiency cfg now d hours =
     (let periodEnd = now;
          periodStart = period_start periodEnd hours;
          vrows = vehicle_window d periodStart periodEnd;
          totalVehicles = length (remdups (map vh_vehicleId vrows));
          totalKwhDeliveredDc = COALESCE (SUM_agg (map vh_kwhDeliveredDc vrows)) 0;
          totalKwhConsumedAc =
            COALESCE (SUM_agg (map mh_kwhConsumedAc (meter_window d periodStart periodEnd))) 0;
          breakdown = efficiencyBreakdown d periodStart periodEnd;
          avgEfficiencyRatio =
            (if totalKwhConsumedAc > 0 then totalKwhDeliveredDc / totalKwhConsumedAc else 0);
          vehiclesWithWarnings =
            length (filter (\<lambda>v. eb_ratio v < efficiencyWarningThreshold cfg
                                 \<and> eb_ratio v \<ge> efficiencyCriticalThreshold cfg) breakdown);
          vehiclesCritical =
            length (filter (\<lambda>v. eb_ratio v < efficiencyCriticalThreshold cfg) breakdown)
      in \<lparr>fe_totalVehicles = totalVehicles,
           fe_avgEfficiencyRatio = round_to 10000 avgEfficiencyRatio,
           fe_vehiclesWithWarnings = vehiclesWithWarnings,
           fe_vehiclesCritical = vehiclesCritical,
           fe_totalKwhConsumedAc = round_to 100 totalKwhConsumedAc,
           fe_totalKwhDeliveredDc = round_to 100 totalKwhDeliveredDc,
           fe_totalEnergyLoss = round_to 100 (totalKwhConsumedAc - totalKwhDeliveredDc)\<rparr>)"

section \<open>Reading the Hot Store\<close>

text \<open>The stored status row of a device, and the correlated peer it carries.\<close>

definition meter_status_row :: "db \<Rightarrow> string \<Rightarrow> MeterCurrentStatus option" where
  "meter_status_row d m = find (\<lambda>r. ms_meterId r = m) (meter_current_status d)"

definition vehicle_status_row :: "db \<Rightarrow> string \<Rightarrow> VehicleCurrentStatus option" where
  "vehicle_status_row d v = find (\<lambda>r. vs_vehicleId r = v) (vehicle_current_status d)"

definition meter_peer :: "db \<Rightarrow> string \<Rightarrow> string option" where
  "meter_peer d m = (case meter_status_row d m of None \<Rightarrow> None | Some r \<Rightarrow> ms_vehicleId r)"

definition vehicle_peer :: "db \<Rightarrow> string \<Rightarrow> string option" where
  "vehicle_peer d v = (case vehicle_status_row d v of None \<Rightarrow> None | Some r \<Rightarrow> vs_meterId r)"

section \<open>Example inputs\<close>

text \<open>Well-formed DTOs, as the validation pipe of the single-reading endpoints lets through.\<close>

definition meter_dto :: "string \<Rightarrow> real \<Rightarrow> real \<Rightarrow> instant \<Rightarrow> MeterTelemetryDto" where
  "meter_dto m k v t =
     \<lparr>md_meterId = Some m, md_kwhConsumedAc = Some k, md_voltage = Some v, md_timestamp = t\<rparr>"

definition vehicle_dto :: "string \<Rightarrow> real \<Rightarrow> real \<Rightarrow> real \<Rightarrow> instant \<Rightarrow> VehicleTelemetryDto" where
  "vehicle_dto v s k temp t =
     \<lparr>vd_vehicleId = Some v, vd_soc = Some s, vd_kwhDeliveredDc = Some k,
      vd_batteryTemp = Some temp, vd_timestamp = t\<rparr>"

definition meter_reading :: "string \<Rightarrow> real \<Rightarrow> real \<Rightarrow> instant \<Rightarrow> PolymorphicTelemetryDto" where
  "meter_reading m k v t =
     \<lparr>p_type = METER, p_meterId = Some m, p_kwhConsumedAc = Some k, p_voltage = Some v,
      p_vehicleId = None, p_soc = None, p_kwhDeliveredDc = None, p_batteryTemp = None,
      p_timestamp = t\<rparr>"

definition vehicle_reading :: "string \<Rightarrow> real \<Rightarrow> real \<Rightarrow> real \<Rightarrow> instant \<Rightarrow> PolymorphicTelemetryDto" where
  "vehicle_reading v s k temp t =
     \<lparr>p_type = VEHICLE, p_meterId = None, p_kwhConsumedAc = None, p_voltage = None,
      p_vehicleId = Some v, p_soc = Some s, p_kwhDeliveredDc = Some k,
      p_batteryTemp = Some temp, p_timestamp = t\<rparr>"

text \<open>2026-02-02T02:40:00Z, and the same time of day one day later.\<close>

definition day1 :: instant where
  "day1 = 1770000000000"

definition day2 :: instant where
  "day2 = 1770086400000"


text \<open>
  Stores for vehicle \<open>V1\<close> and meter \<open>M1\<close>.  In \<open>unmetered_db\<close> the vehicle has one
  reading delivering 9 kWh and the meter has no history; in \<open>metered_db\<close> the meter has
  one reading of 10 kWh in addition.  In \<open>meter_only_db\<close> the window of the examples
  holds that meter reading and a reading of another vehicle, and the only reading of
  \<open>V1\<close> is three days old.
\<close>

definition unmetered_db :: db where
  "unmetered_db = empty_db
     \<lparr>vehicle_telemetry_history :=
        [\<lparr>vh_id = 0, vh_vehicleId = ''V1'', vh_soc = 50, vh_kwhDeliveredDc = 9,
          vh_batteryTemp = 30, vh_timestamp = day1, vh_ingestedAt = day1,
          vh_meterId = None\<rparr>]\<rparr>"

definition metered_db :: db where
  "metered_db = unmetered_db
     \<lparr>meter_telemetry_history :=
        [\<lparr>mh_id = 0, mh_meterId = ''M1'', mh_kwhConsumedAc = 10, mh_voltage = 240,
          mh_timestamp = day1, mh_ingestedAt = day1, mh_vehicleId = None\<rparr>]\<rparr>"

definition meter_only_db :: db where
  "meter_only_db = metered_db
     \<lparr>vehicle_telemetry_history :=
        [\<lparr>vh_id = 0, vh_vehicleId = ''V1'', vh_soc = 50, vh_kwhDeliveredDc = 9,
          vh_batteryTemp = 30, vh_timestamp = day1 - 259200000, vh_ingestedAt = day1,
          vh_meterId = None\<rparr>,
         \<lparr>vh_id = 1, vh_vehicleId = ''V2'', vh_soc = 50, vh_kwhDeliveredDc = 5,
          vh_batteryTemp = 30, vh_timestamp = day1, vh_ingestedAt = day1,
          vh_meterId = None\<rparr>]\<rparr>"

text \<open>
  The delivered-energy sum of a vehicle over the window of the last \<open>hours\<close> hours,
  written out over the history table.
\<close>

definition delivered_sum :: "db \<Rightarrow> instant \<Rightarrow> int \<Rightarrow> string \<Rightarrow> real" where
  "delivered_sum d now hours vehicleId =
     sum_list (map vh_kwhDeliveredDc
       (filter (\<lambda>r. vh_vehicleId r = vehicleId \<and> period_start now hours \<le> vh_timestamp r
                     \<and> vh_timestamp r \<le> now)
          (vehicle_telemetry_history d)))"








section \<open>Properties of the status upsert\<close>



lemma meter_do_update_key [simp]: "ms_meterId (meter_do_update now h p1 p2 p3 p4 p5 r) = ms_meterId r"
  by (simp add: meter_do_update_def)

lemma vehicle_do_update_key [simp]: "vs_vehicleId (vehicle_do_update now p2 p3 p4 p5 p6 p7 p8 r) = vs_vehicleId r"
  by (simp add: vehicle_do_update_def)



text \<open>The upsert writes the status table of its own stream only.\<close>

lemma upsertMeterStatus_frame:
  "upsertMeterStatus now d dto ts p = Inr d' \<Longrightarrow>
     d' = d\<lparr>meter_current_status := meter_current_status d'\<rparr>"
  by (auto simp: upsertMeterStatus_def split: option.splits)

lemma upsertVehicleStatus_frame:
  "upsertVehicleStatus now d dto ts p = Inr d' \<Longrightarrow>
     d' = d\<lparr>vehicle_current_status := vehicle_current_status d'\<rparr>"
  by (auto simp: upsertVehicleStatus_def Let_def split: option.splits)





text \<open>The history insert leaves the status tables alone.\<close>

lemma insert_meter_history_frame:
  "insert_meter_history now d dto ts p = Inr d' \<Longrightarrow>
     d' = d\<lparr>meter_telemetry_history := meter_telemetry_history d'\<rparr>"
  by (auto simp: insert_meter_history_def split: option.splits)

lemma insert_vehicle_history_frame:
  "insert_vehicle_history now d dto ts p = Inr d' \<Longrightarrow>
     d' = d\<lparr>vehicle_telemetry_history := vehicle_telemetry_history d'\<rparr>"
  by (auto simp: insert_vehicle_history_def split: option.splits)












lemma ingest_loop_counts:
  "ingest_loop fs now rs (d, res) = (d', res') \<Longrightarrow>
     br_success res' + br_failed res' = br_success res + br_failed res + length rs \<and>
     length (br_errors res') + br_failed res = length (br_errors res) + br_failed res'"
proof (induction rs arbitrary: fs d res)
  case Nil
  then show ?case by simp
next
  case (Cons reading rest)
  let ?f = "case fs of [] \<Rightarrow> None | f # _ \<Rightarrow> f"
  obtain out d1 where step: "ingestPolymorphic ?f now d reading = (out, d1)"
    by (cases "ingestPolymorphic ?f now d reading")
  show ?case
  proof (cases out)
    case (Inl e)
    with step Cons.prems
    have "ingest_loop (tl fs) now rest
            (d1, res\<lparr>br_failed := br_failed res + 1,
                     br_errors := br_errors res @ [failure_entry reading e]\<rparr>) = (d', res')"
      by simp
    from Cons.IH [OF this] show ?thesis by simp
  next
    case (Inr a)
    with step Cons.prems
    have "ingest_loop (tl fs) now rest (d1, res\<lparr>br_success := br_success res + 1\<rparr>) = (d', res')"
      by simp
    from Cons.IH [OF this] show ?thesis by simp
  qed
qed

lemmas ingest_eval =
  ingestMeterTelemetry_def ingestVehicleTelemetry_def ingestPolymorphic_def
  insert_meter_history_def insert_vehicle_history_def
  upsertMeterStatus_def upsertVehicleStatus_def meter_do_update_def vehicle_do_update_def
  second_latest_kwhConsumedAc_def findOne_meter_def findOne_vehicle_def or_null_def
  COALESCE_def GREATEST_of_def DATE_def BATTERY_TEMP_WARNING_def empty_db_def
  meter_dto_def vehicle_dto_def meter_reading_def vehicle_reading_def day1_def day2_def
  meter_status_row_def vehicle_status_row_def meter_peer_def vehicle_peer_def Let_def

section \<open>Claims\<close>



text \<open>
  C1.  The code at a day boundary: a meter (a vehicle) whose status row holds the daily
  value 10 from the previous day receives a reading of 3 on the next calendar day.  The
  upsert stores 13, the previous day's 10 plus the reading, where a reset would store 3.
\<close>

theorem day_boundary_keeps_previous_day:
  "DATE day2 > DATE day1 \<and>
   map_option ms_dailyKwhConsumedAc
     (meter_status_row
        (snd (ingestMeterTelemetry None 0
               (snd (ingestMeterTelemetry None 0 empty_db (meter_dto ''M1'' 10 240 day1)))
               (meter_dto ''M1'' 3 240 day2))) ''M1'') = Some 13 \<and>
   map_option vs_dailyKwhDeliveredDc
     (vehicle_status_row
        (snd (ingestVehicleTelemetry None 0
               (snd (ingestVehicleTelemetry None 0 empty_db (vehicle_dto ''V1'' 50 10 30 day1)))
               (vehicle_dto ''V1'' 55 3 30 day2))) ''V1'') = Some 13"
  by (simp add: ingest_eval)




lemma deactivateMapping_frame:
  "deactivateMapping now d a b = d\<lparr>device_mapping := device_mapping (deactivateMapping now d a b)\<rparr>"
  by (simp add: deactivateMapping_def)








text \<open>
  The loop of \<open>ingestBatch\<close> attempts every reading: each one is counted as a success or
  as a failure, and each failure records one reason.
\<close>

lemma ingestBatch_attempts_every_reading:
  "ingestBatch bf fs now d readings = (Inr res, d') \<Longrightarrow>
     br_success res + br_failed res = length readings \<and>
     length (br_errors res) = br_failed res"
proof -
  assume a: "ingestBatch bf fs now d readings = (Inr res, d')"
  let ?res0 = "\<lparr>br_success = 0, br_failed = 0, br_errors = []\<rparr>"
  obtain d1 res1 where l: "ingest_loop fs now readings (d, ?res0) = (d1, res1)"
    by (cases "ingest_loop fs now readings (d, ?res0)")
  with a have "res = res1"
    by (auto simp: ingestBatch_def split: if_splits)
  with ingest_loop_counts [OF l] show ?thesis by simp
qed

text \<open>
  C3.  The code at a batch whose storage transaction fails.  First run: the commit of
  the batch transaction fails; \<open>ingestBatch\<close> rolls back and throws, yet the reading of
  the batch is in the Cold Store and in the Hot Store.  Second run: the storage layer
  fails at the status upsert of the second reading; the fault is caught by the
  per-record handler and reported as one failed record of a batch that returns
  normally, with the first reading applied and the history row of the second one
  persisted without its status row.
\<close>

theorem batch_rollback_keeps_writes:
  "fst (ingestBatch (Some CommitTransaction) [] 0 empty_db [meter_reading ''M1'' 10 240 day1])
     = Inl StorageFailure \<and>
   map mh_kwhConsumedAc (meter_telemetry_history
     (snd (ingestBatch (Some CommitTransaction) [] 0 empty_db
        [meter_reading ''M1'' 10 240 day1]))) = [10] \<and>
   map ms_dailyKwhConsumedAc (meter_current_status
     (snd (ingestBatch (Some CommitTransaction) [] 0 empty_db
        [meter_reading ''M1'' 10 240 day1]))) = [10] \<and>
   fst (ingestBatch None [None, Some HotUpsert] 0 empty_db
          [meter_reading ''M1'' 10 240 day1, vehicle_reading ''V1'' 50 10 30 day1])
     = Inr \<lparr>br_success = 1, br_failed = 1,
           br_errors = [failure_entry (vehicle_reading ''V1'' 50 10 30 day1) StorageFailure]\<rparr> \<and>
   map mh_kwhConsumedAc (meter_telemetry_history
     (snd (ingestBatch None [None, Some HotUpsert] 0 empty_db
        [meter_reading ''M1'' 10 240 day1, vehicle_reading ''V1'' 50 10 30 day1]))) = [10] \<and>
   map vh_kwhDeliveredDc (vehicle_telemetry_history
     (snd (ingestBatch None [None, Some HotUpsert] 0 empty_db
        [meter_reading ''M1'' 10 240 day1, vehicle_reading ''V1'' 50 10 30 day1]))) = [10] \<and>
   vehicle_current_status
     (snd (ingestBatch None [None, Some HotUpsert] 0 empty_db
        [meter_reading ''M1'' 10 240 day1, vehicle_reading ''V1'' 50 10 30 day1])) = []"
  by (simp add: ingest_eval ingestBatch_def commitTransaction_def rollbackTransaction_def)

lemmas analytics_eval =
  getPerformance_def getFleetEfficiency_def efficiencyBreakdown_def vehicle_energy_def
  consumed_sum_def resolve_meterId_def vehicle_window_def meter_window_def
  SUM_agg_def AVG_agg_def MAX_agg_def MIN_agg_def COALESCE_def or_null_def
  findOne_vehicle_def period_start_def round_to_def Math_round_def default_config_def
  unmetered_db_def metered_db_def meter_only_db_def empty_db_def day1_def day2_def
  delivered_sum_def Let_def

lemma COALESCE_SUM_agg: "COALESCE (SUM_agg xs) 0 = sum_list xs"
  by (simp add: COALESCE_def SUM_agg_def)

lemma vehicle_rows_eq:
  "filter (\<lambda>r. vh_vehicleId r = v) (vehicle_window d (period_start now hours) now) =
   filter (\<lambda>r. vh_vehicleId r = v \<and> period_start now hours \<le> vh_timestamp r
                 \<and> vh_timestamp r \<le> now) (vehicle_telemetry_history d)"
  by (simp add: vehicle_window_def conj_commute conj_left_commute cong: conj_cong)

text \<open>
  C6.  A device summary over a window without any history row of the vehicle fails with
  \<open>NotFound\<close>, whatever meter rows the window holds.
\<close>

theorem no_vehicle_rows_not_found:
  assumes "filter (\<lambda>r. vh_vehicleId r = vehicleId \<and> period_start now hours \<le> vh_timestamp r
                        \<and> vh_timestamp r \<le> now) (vehicle_telemetry_history d) = []"
  shows "getPerformance cfg now d vehicleId hours meterId = Inl NotFound"
  using assms by (simp add: getPerformance_def Let_def vehicle_rows_eq)

theorem no_vehicle_rows_not_found_witness:
  "filter (\<lambda>r. vh_vehicleId r = ''V1'' \<and> period_start (day1 + 3600000) 24 \<le> vh_timestamp r
                \<and> vh_timestamp r \<le> day1 + 3600000) (vehicle_telemetry_history meter_only_db) = [] \<and>
   consumed_sum meter_only_db (period_start (day1 + 3600000) 24) (day1 + 3600000) ''V1''
     (Some ''M1'') = 10 \<and>
   getPerformance default_config (day1 + 3600000) meter_only_db ''V1'' 24 (Some ''M1'')
     = Inl NotFound"
proof -
  have h: "filter (\<lambda>r. vh_vehicleId r = ''V1'' \<and> period_start (day1 + 3600000) 24 \<le> vh_timestamp r
                \<and> vh_timestamp r \<le> day1 + 3600000) (vehicle_telemetry_history meter_only_db) = []"
    by (simp add: analytics_eval)
  have m: "consumed_sum meter_only_db (period_start (day1 + 3600000) 24) (day1 + 3600000) ''V1''
     (Some ''M1'') = 10"
    by (simp add: analytics_eval)
  from h m no_vehicle_rows_not_found [OF h, of default_config "Some ''M1''"]
  show ?thesis by simp
qed

text \<open>
  C5, as stated, fails: the report has no field that tells an estimated ratio from a
  measured one.  With 9 kWh delivered, the report for a meter without readings (consumed
  sum 0, ratio estimated) is equal, field by field, to the report for a meter that
  measured 10 kWh.
\<close>

theorem estimated_report_equals_measured_report:
  "consumed_sum unmetered_db (period_start (day1 + 3600000) 24) (day1 + 3600000)
     ''V1'' (Some ''M1'') = 0 \<and>
   consumed_sum metered_db (period_start (day1 + 3600000) 24) (day1 + 3600000)
     ''V1'' (Some ''M1'') = 10 \<and>
   delivered_sum unmetered_db (day1 + 3600000) 24 ''V1'' = 9 \<and>
   getPerformance default_config (day1 + 3600000) unmetered_db ''V1'' 24 (Some ''M1'') =
   getPerformance default_config (day1 + 3600000) metered_db ''V1'' 24 (Some ''M1'')"
  by (simp add: analytics_eval)

text \<open>
  C5, amended.  When the window has a positive delivered-energy sum and the consumed-energy
  query returns no positive sum, the device summary does not fail: it reports the
  estimate \<open>delivered / 0.9\<close> as consumed energy and \<open>0.9\<close> as efficiency ratio (both
  rounded to four decimals, as every figure of the report).  The report carries no flag
  for the estimate.
\<close>

theorem zero_consumed_is_estimated:
  assumes "delivered_sum d now hours vehicleId > 0"
    and "consumed_sum d (period_start now hours) now vehicleId
           (resolve_meterId d vehicleId meterId) \<le> 0"
  shows "\<exists>r. getPerformance cfg now d vehicleId hours meterId = Inr r \<and>
           pr_efficiencyRatio r = 0.9 \<and>
           pr_totalKwhConsumedAc r = round_to 10000 (delivered_sum d now hours vehicleId / 0.9) \<and>
           pr_totalKwhDeliveredDc r = round_to 10000 (delivered_sum d now hours vehicleId)"
proof -
  let ?rows = "filter (\<lambda>r. vh_vehicleId r = vehicleId \<and> period_start now hours \<le> vh_timestamp r
                 \<and> vh_timestamp r \<le> now) (vehicle_telemetry_history d)"
  from assms(1) have ne: "?rows \<noteq> []"
    by (auto simp: delivered_sum_def)
  from assms(2) have c: "\<not> consumed_sum d (period_start now hours) now vehicleId
           (resolve_meterId d vehicleId meterId) > 0"
    by simp
  have r: "round_to 10000 (9 / 10) = 9 / 10"
    by (simp add: round_to_def Math_round_def)
  from ne c assms(1) r show ?thesis
    by (simp add: getPerformance_def Let_def vehicle_rows_eq COALESCE_SUM_agg delivered_sum_def)
qed

theorem zero_consumed_is_estimated_witness:
  "delivered_sum unmetered_db (day1 + 3600000) 24 ''V1'' > 0 \<and>
   consumed_sum unmetered_db (period_start (day1 + 3600000) 24) (day1 + 3600000) ''V1''
     (resolve_meterId unmetered_db ''V1'' None) \<le> 0 \<and>
   (\<exists>r. getPerformance default_config (day1 + 3600000) unmetered_db ''V1'' 24 None = Inr r \<and>
      pr_efficiencyRatio r = 0.9 \<and> pr_totalKwhConsumedAc r = 10 \<and>
      pr_totalKwhDeliveredDc r = 9)"
proof -
  have d: "delivered_sum unmetered_db (day1 + 3600000) 24 ''V1'' = 9"
    by (simp add: analytics_eval)
  have c: "consumed_sum unmetered_db (period_start (day1 + 3600000) 24) (day1 + 3600000) ''V1''
     (resolve_meterId unmetered_db ''V1'' None) = 0"
    by (simp add: analytics_eval)
  have r: "round_to 10000 10 = 10" "round_to 10000 9 = 9"
    by (simp_all add: round_to_def Math_round_def)
  from d have d': "delivered_sum unmetered_db (day1 + 3600000) 24 ''V1'' > 0" by simp
  from c have c': "consumed_sum unmetered_db (period_start (day1 + 3600000) 24) (day1 + 3600000) ''V1''
     (resolve_meterId unmetered_db ''V1'' None) \<le> 0" by simp
  from zero_consumed_is_estimated [OF d' c', of default_config] d c r
  show ?thesis by simp
qed







end
